theory Spec2Isabelle
  imports Main "HOL-Library.Sublist" "HOL-Library.Word"
begin

section \<open>The PE dump plugin (windows/pedump.py)\<close>

text \<open>
  A shallow embedding of the plugin class \<open>PEDump\<close>: the methods \<open>_write_pe\<close>,
  \<open>_dump_kernel\<close>, \<open>_dump_processes\<close> and \<open>_generator\<close>. The plugin threads two
  kinds of effects, which the model passes explicitly in a \<open>world\<close>: the messages sent to
  the module logger and the output files opened through \<open>self.open\<close>. What the framework
  around the plugin does (the memory layers, the process list, the output sink, the PE
  header object) is a parameter, the record \<open>env\<close>. Python exceptions are values: a
  method returns \<open>Inl e\<close> where the Python raises \<open>e\<close> to its caller.
\<close>

subsection \<open>Python's integer formatting\<close>

text \<open>
  The file name is built with \<open>"PE.{:#x}.{:d}.{:#x}.dmp".format(proc_offset, pid, base)\<close>.
  \<open>{:d}\<close> writes an integer in decimal, \<open>{:#x}\<close> in lower-case hexadecimal after the
  prefix \<open>0x\<close>; both put the sign \<open>-\<close> first for a negative number.
\<close>

definition digit_char :: "nat \<Rightarrow> char" where
  "digit_char d = char_of (if d < 10 then 48 + d else 87 + d)"

function digits :: "nat \<Rightarrow> nat \<Rightarrow> string" where
  "digits b n =
     (if b < 2 \<or> n < b then [digit_char n]
      else digits b (n div b) @ [digit_char (n mod b)])"
  by pat_completeness auto
termination
  by (relation "measure (\<lambda>(b, n). n)") auto

declare digits.simps [simp del]

definition format_x :: "int \<Rightarrow> string" where
  "format_x i = (if i < 0 then ''-'' else '''') @ ''0x'' @ digits 16 (nat \<bar>i\<bar>)"

definition format_d :: "int \<Rightarrow> string" where
  "format_d i = (if i < 0 then ''-'' else '''') @ digits 10 (nat \<bar>i\<bar>)"

definition pe_file_name :: "int \<Rightarrow> int \<Rightarrow> int \<Rightarrow> string" where
  "pe_file_name proc_offset pid base =
     ''PE.'' @ format_x proc_offset @ ''.'' @ format_d pid @ ''.'' @ format_x base @ ''.dmp''"

subsection \<open>Exceptions, configuration, log and output files\<close>

text \<open>
  The \<open>except\<close> clause of \<open>_write_pe\<close> names four classes. An exception is classified
  by the one of them it is an instance of, or as \<open>OtherException\<close> when it is an
  instance of none; \<open>msg\<close> is what \<open>str\<close> gives for it.
\<close>

datatype exc_class = IOError | VolatilityException | OverflowError | ValueError | OtherException

datatype exc = Exc (cls: exc_class) (msg: string)

definition caught :: "exc \<Rightarrow> bool" where
  "caught e \<longleftrightarrow>
     cls e = IOError \<or> cls e = VolatilityException \<or> cls e = OverflowError \<or> cls e = ValueError"

type_synonym byte = "8 word"

type_synonym write_instruction = "int \<times> byte list"

text \<open>
  The plugin's configuration: \<open>base\<close> is required, \<open>pid\<close> is an optional list (\<open>None\<close>
  when it is not given) and \<open>kernel_module\<close> a flag that defaults to \<open>False\<close>.
\<close>

record config =
  base :: int
  pid :: "int list option"
  kernel_module :: bool

text \<open>
  Python's truth value of an optional list or string: \<open>None\<close> and the empty sequence
  are false.
\<close>

definition truthy :: "'a list option \<Rightarrow> bool" where
  "truthy v = (case v of None \<Rightarrow> False | Some xs \<Rightarrow> xs \<noteq> [])"

datatype log_level = DEBUG | WARNING | ERROR

text \<open>
  An output file object: the name it was opened under, the name it reports as
  \<open>preferred_filename\<close>, the position set by \<open>seek\<close>, the data written so far with the
  position of each \<open>write\<close>, and whether \<open>close\<close> has been called on it.
\<close>

record file_handle =
  file_name :: string
  preferred_filename :: string
  position :: int
  written :: "write_instruction list"
  close_called :: bool

text \<open>The effects of a run: the log records in order, and the files opened in order.
  A handle is the index of its file.\<close>

record world =
  vollog :: "(log_level \<times> string) list"
  files :: "file_handle list"

text \<open>An entry of the process list: the fields of \<open>proc\<close> that the plugin reads, and the
  name of the layer that \<open>proc.add_process_layer()\<close> returns.\<close>

record eprocess =
  UniqueProcessId :: int
  ImageFileName :: string
  vol_offset :: int
  process_layer :: string

text \<open>
  The framework around the plugin. The output sink may raise at \<open>open\<close>, \<open>seek\<close>,
  \<open>write\<close> and \<open>close\<close>, depending on everything that happened before; building the
  header object may raise; the generator \<open>dos_header.reconstruct()\<close> yields its write
  instructions and may end by raising.
\<close>

record env =
  pe_table_name :: string
  open_raises :: "world \<Rightarrow> string \<Rightarrow> exc option"
  preferred_name :: "string \<Rightarrow> string"
  object_raises :: "string \<Rightarrow> string \<Rightarrow> int \<Rightarrow> exc option"
  reconstruct :: "string \<Rightarrow> int \<Rightarrow> write_instruction list \<times> exc option"
  seek_raises :: "world \<Rightarrow> nat \<Rightarrow> int \<Rightarrow> exc option"
  write_raises :: "world \<Rightarrow> nat \<Rightarrow> byte list \<Rightarrow> exc option"
  close_raises :: "world \<Rightarrow> nat \<Rightarrow> exc option"
  is_valid :: "string \<Rightarrow> int \<Rightarrow> bool"
  get_session_layers :: "string list"
  processes :: "eprocess list"

definition log_msg :: "log_level \<Rightarrow> string \<Rightarrow> world \<Rightarrow> world" where
  "log_msg lvl m w = w\<lparr>vollog := vollog w @ [(lvl, m)]\<rparr>"

definition file_open :: "env \<Rightarrow> string \<Rightarrow> world \<Rightarrow> world" where
  "file_open E name w =
     w\<lparr>files := files w @
        [\<lparr>file_name = name, preferred_filename = preferred_name E name, position = 0,
          written = [], close_called = False\<rparr>]\<rparr>"

definition file_seek :: "nat \<Rightarrow> int \<Rightarrow> world \<Rightarrow> world" where
  "file_seek h offset w = w\<lparr>files := (files w)[h := (files w ! h)\<lparr>position := offset\<rparr>]\<rparr>"

definition file_write :: "nat \<Rightarrow> byte list \<Rightarrow> world \<Rightarrow> world" where
  "file_write h data w =
     (let f = files w ! h
      in w\<lparr>files := (files w)[h := f\<lparr>written := written f @ [(position f, data)],
                                      position := position f + int (length data)\<rparr>]\<rparr>)"

definition file_close :: "nat \<Rightarrow> world \<Rightarrow> world" where
  "file_close h w = w\<lparr>files := (files w)[h := (files w ! h)\<lparr>close_called := True\<rparr>]\<rparr>"

subsection \<open>\<open>_write_pe\<close>\<close>

text \<open>The \<open>for\<close> loop of \<open>_write_pe\<close>: seek, then write, for each instruction; the first
  exception ends it.\<close>

fun write_loop :: "env \<Rightarrow> nat \<Rightarrow> write_instruction list \<Rightarrow> world \<Rightarrow> exc option \<times> world" where
  "write_loop E h [] w = (None, w)"
| "write_loop E h ((offset, data) # rest) w =
     (case seek_raises E w h offset of
        Some e \<Rightarrow> (Some e, w)
      | None \<Rightarrow>
          (case write_raises E (file_seek h offset w) h data of
             Some e \<Rightarrow> (Some e, file_seek h offset w)
           | None \<Rightarrow> write_loop E h rest (file_write h data (file_seek h offset w))))"

text \<open>The body of the \<open>try\<close> statement: open the file, build the header object,
  write what \<open>reconstruct\<close> yields. It gives the handle, or the exception raised.\<close>

definition try_block ::
  "env \<Rightarrow> config \<Rightarrow> string \<Rightarrow> string \<Rightarrow> int \<Rightarrow> int \<Rightarrow> world \<Rightarrow> (exc + nat) \<times> world" where
  "try_block E cfg table layer_name proc_offset pid' w =
     (case open_raises E w (pe_file_name proc_offset pid' (base cfg)) of
        Some e \<Rightarrow> (Inl e, w)
      | None \<Rightarrow>
          (let h = length (files w);
               w1 = file_open E (pe_file_name proc_offset pid' (base cfg)) w
           in case object_raises E (table @ ''!'' @ ''_IMAGE_DOS_HEADER'') layer_name (base cfg) of
                Some e \<Rightarrow> (Inl e, w1)
              | None \<Rightarrow>
                  (case write_loop E h (fst (reconstruct E layer_name (base cfg))) w1 of
                     (Some e, w2) \<Rightarrow> (Inl e, w2)
                   | (None, w2) \<Rightarrow>
                       (case snd (reconstruct E layer_name (base cfg)) of
                          Some e \<Rightarrow> (Inl e, w2)
                        | None \<Rightarrow> (Inr h, w2)))))"

text \<open>\<open>_write_pe\<close>: an exception of the four classes is logged and gives \<open>None\<close>; any
  other one goes to the caller. After the \<open>try\<close> statement the file is closed and its
  preferred name returned; \<open>close\<close> is outside the \<open>try\<close>, so what it raises goes to the
  caller too.\<close>

definition write_pe ::
  "env \<Rightarrow> config \<Rightarrow> string \<Rightarrow> string \<Rightarrow> int \<Rightarrow> int \<Rightarrow> world \<Rightarrow> (exc + string option) \<times> world" where
  "write_pe E cfg table layer_name proc_offset pid' w =
     (case try_block E cfg table layer_name proc_offset pid' w of
        (Inl e, w1) \<Rightarrow>
          if caught e
          then (Inr None,
                log_msg DEBUG (''Unable to dump dll at offset '' @ format_d (base cfg) @ '': '' @ msg e) w1)
          else (Inl e, w1)
      | (Inr h, w1) \<Rightarrow>
          (case close_raises E w1 h of
             Some e \<Rightarrow> (Inl e, file_close h w1)
           | None \<Rightarrow> (Inr (Some (preferred_filename (files w1 ! h))), file_close h w1)))"

subsection \<open>The two resolvers and \<open>_generator\<close>\<close>

text \<open>A row is \<open>(pid, process name, file output)\<close>. A generator gives the rows it
  yielded and, when it ended by an exception, that exception.\<close>

type_synonym row = "int \<times> string \<times> string"

text \<open>\<open>if file_output: yield pid, proc_name, file_output\<close>: a row, unless the file output is
  \<open>None\<close> or the empty string.\<close>

definition yield_row :: "int \<Rightarrow> string \<Rightarrow> string option \<Rightarrow> row list" where
  "yield_row pid' proc_name file_output =
     (case file_output of
        None \<Rightarrow> []
      | Some f \<Rightarrow> if f \<noteq> [] then [(pid', proc_name, f)] else [])"

text \<open>
  Modelled from the spec: \<open>modules.Modules.find_session_layer\<close> is not among the sources.
  The candidates are searched in enumeration order for the first one in which the base
  address is mapped.
\<close>

fun find_session_layer :: "(string \<Rightarrow> int \<Rightarrow> bool) \<Rightarrow> string list \<Rightarrow> int \<Rightarrow> string option" where
  "find_session_layer valid [] base_address = None"
| "find_session_layer valid (layer_name # rest) base_address =
     (if valid layer_name base_address then Some layer_name
      else find_session_layer valid rest base_address)"

definition dump_kernel ::
  "env \<Rightarrow> config \<Rightarrow> string \<Rightarrow> string list \<Rightarrow> world \<Rightarrow> (row list \<times> exc option) \<times> world" where
  "dump_kernel E cfg table session_layers w =
     (case find_session_layer (is_valid E) session_layers (base cfg) of
        Some session_layer_name \<Rightarrow>
          if session_layer_name \<noteq> []
          then (case write_pe E cfg table session_layer_name 0 4 w of
                  (Inl e, w1) \<Rightarrow> (([], Some e), w1)
                | (Inr file_output, w1) \<Rightarrow> ((yield_row 4 ''Kernel'' file_output, None), w1))
          else (([], None),
                log_msg WARNING
                  ''Unable to find a session layer with the provided base address mapped in the kernel.'' w)
      | None \<Rightarrow>
          (([], None),
           log_msg WARNING
             ''Unable to find a session layer with the provided base address mapped in the kernel.'' w))"

text \<open>
  Modelled from the spec: \<open>pslist.PsList.create_pid_filter\<close> and \<open>list_processes\<close> are not
  among the sources. The live processes are enumerated and an optional allow-list on the
  process identifier is applied; no list, or an empty one, lets every process through.
\<close>

definition list_processes :: "env \<Rightarrow> int list option \<Rightarrow> eprocess list" where
  "list_processes E pid_list =
     (case pid_list of
        None \<Rightarrow> processes E
      | Some allowed \<Rightarrow>
          if allowed \<noteq> []
          then filter (\<lambda>proc. UniqueProcessId proc \<in> set allowed) (processes E)
          else processes E)"

text \<open>The \<open>for\<close> loop of \<open>_dump_processes\<close> over the processes still to come.\<close>

fun dump_processes_loop ::
  "env \<Rightarrow> config \<Rightarrow> string \<Rightarrow> eprocess list \<Rightarrow> world \<Rightarrow> (row list \<times> exc option) \<times> world" where
  "dump_processes_loop E cfg table [] w = (([], None), w)"
| "dump_processes_loop E cfg table (proc # rest) w =
     (case write_pe E cfg table (process_layer proc) (vol_offset proc) (UniqueProcessId proc) w of
        (Inl e, w1) \<Rightarrow> (([], Some e), w1)
      | (Inr file_output, w1) \<Rightarrow>
          (case dump_processes_loop E cfg table rest w1 of
             ((rows, x), w2) \<Rightarrow>
               ((yield_row (UniqueProcessId proc) (ImageFileName proc) file_output @ rows, x), w2)))"

definition dump_processes ::
  "env \<Rightarrow> config \<Rightarrow> string \<Rightarrow> world \<Rightarrow> (row list \<times> exc option) \<times> world" where
  "dump_processes E cfg table w =
     dump_processes_loop E cfg table (list_processes E (pid cfg)) w"

text \<open>\<open>_generator\<close>: the two checks of the configuration, then the rows of the chosen
  method, each at tree depth 0.\<close>

definition generator :: "env \<Rightarrow> config \<Rightarrow> world \<Rightarrow> ((nat \<times> row) list \<times> exc option) \<times> world" where
  "generator E cfg w =
     (if kernel_module cfg \<and> truthy (pid cfg)
      then (([], None), log_msg ERROR ''Only --kernel_module or --pid should be set. Not both'' w)
      else if \<not> kernel_module cfg \<and> \<not> truthy (pid cfg)
      then (([], None), log_msg ERROR ''--kernel_module or --pid must be set'' w)
      else
        (case (if kernel_module cfg
               then dump_kernel E cfg (pe_table_name E) (get_session_layers E) w
               else dump_processes E cfg (pe_table_name E) w) of
           ((rows, x), w1) \<Rightarrow> ((map (\<lambda>r. (0, r)) rows, x), w1)))"

subsection \<open>A sample memory image\<close>

text \<open>Concrete inputs, on which the theorems below are instantiated: three processes,
  three session layers of which only the third maps the base address, a reconstruction of
  two write instructions, and a sink that never fails.\<close>

definition empty_world :: world where
  "empty_world = \<lparr>vollog = [], files = []\<rparr>"

definition proc_system :: eprocess where
  "proc_system = \<lparr>UniqueProcessId = 4, ImageFileName = ''System'', vol_offset = 0xfa8000,
     process_layer = ''layer_4''\<rparr>"

definition proc_svchost :: eprocess where
  "proc_svchost = \<lparr>UniqueProcessId = 812, ImageFileName = ''svchost.exe'', vol_offset = 0xfa9000,
     process_layer = ''layer_812''\<rparr>"

definition proc_notepad :: eprocess where
  "proc_notepad = \<lparr>UniqueProcessId = 1000, ImageFileName = ''notepad.exe'', vol_offset = 0xfaa000,
     process_layer = ''layer_1000''\<rparr>"

definition sample_env :: env where
  "sample_env =
     \<lparr>pe_table_name = ''pe1'',
      open_raises = (\<lambda>w name. None),
      preferred_name = (\<lambda>name. name),
      object_raises = (\<lambda>symbol layer_name offset. None),
      reconstruct = (\<lambda>layer_name offset. ([(0, [77, 90]), (1024, [1, 2, 3])], None)),
      seek_raises = (\<lambda>w h offset. None),
      write_raises = (\<lambda>w h data. None),
      close_raises = (\<lambda>w h. None),
      is_valid = (\<lambda>layer_name offset. layer_name = ''session_3''),
      get_session_layers = [''session_1'', ''session_2'', ''session_3''],
      processes = [proc_system, proc_svchost, proc_notepad]\<rparr>"

text \<open>The same image when the second and the third session layer both map the base
  address, and what is reconstructed depends on the layer.\<close>

definition two_sessions_env :: env where
  "two_sessions_env =
     sample_env\<lparr>is_valid := (\<lambda>layer_name offset. layer_name \<noteq> ''session_1''),
                reconstruct := (\<lambda>layer_name offset.
                  if layer_name = ''session_2'' then ([(0, [77, 90])], None) else ([(0, [0])], None))\<rparr>"

definition process_config :: config where
  "process_config = \<lparr>base = 0x140000000, pid = Some [4, 812], kernel_module = False\<rparr>"

definition kernel_config :: config where
  "kernel_config = \<lparr>base = 0x140000000, pid = None, kernel_module = True\<rparr>"

text \<open>The same image when the header read through the layer of the first process, or
  through the third session layer, has a bad magic value; when every write after the
  first fails; and when closing the first output file fails.\<close>

definition bad_magic :: exc where
  "bad_magic = Exc ValueError ''e_magic 0000 is not a valid DOS signature.''"

definition no_space :: exc where
  "no_space = Exc IOError ''No space left on device''"

definition bad_header_env :: env where
  "bad_header_env =
     sample_env\<lparr>object_raises :=
       (\<lambda>symbol layer_name offset.
          if layer_name = ''layer_4'' \<or> layer_name = ''session_3'' then Some bad_magic else None)\<rparr>"

definition write_fails_env :: env where
  "write_fails_env =
     sample_env\<lparr>write_raises := (\<lambda>w h data. if written (files w ! h) = [] then None else Some no_space)\<rparr>"

definition close_fails_env :: env where
  "close_fails_env = sample_env\<lparr>close_raises := (\<lambda>w h. if h = 0 then Some no_space else None)\<rparr>"

section \<open>Auxiliary facts\<close>

subsection \<open>File names\<close>

lemma digit_char_code:
  "d < 16 \<Longrightarrow> (of_char (digit_char d) :: nat) = (if d < 10 then 48 + d else 87 + d)"
  by (simp add: digit_char_def)

lemma digit_char_inj:
  assumes "d < 16" "e < 16" "digit_char d = digit_char e"
  shows "d = e"
proof -
  have "(of_char (digit_char d) :: nat) = of_char (digit_char e)"
    using assms(3) by simp
  with assms(1,2) show ?thesis
    by (simp add: digit_char_code split: if_splits)
qed

lemma digit_char_not_sep:
  assumes "d < 16"
  shows "digit_char d \<noteq> CHR ''.''" and "digit_char d \<noteq> CHR ''-''"
proof -
  have c: "(of_char (digit_char d) :: nat) \<ge> 48"
    using assms by (simp add: digit_char_code)
  show "digit_char d \<noteq> CHR ''.''"
  proof
    assume h: "digit_char d = CHR ''.''"
    have "(of_char (digit_char d) :: nat) = 46" by (simp add: h)
    with c show False by simp
  qed
  show "digit_char d \<noteq> CHR ''-''"
  proof
    assume h: "digit_char d = CHR ''-''"
    have "(of_char (digit_char d) :: nat) = 45" by (simp add: h)
    with c show False by simp
  qed
qed

lemma digits_nonempty: "digits b n \<noteq> []"
  by (subst digits.simps) simp

lemma digits_chars:
  "2 \<le> b \<Longrightarrow> b \<le> 16 \<Longrightarrow> c \<in> set (digits b n) \<Longrightarrow> \<exists>d<16. c = digit_char d"
proof (induction b n rule: digits.induct)
  case (1 b n)
  note bb = \<open>2 \<le> b\<close> \<open>b \<le> 16\<close>
  show ?case
  proof (cases "b < 2 \<or> n < b")
    case True
    with "1.prems" have "c = digit_char n" "n < 16"
      by (auto simp: digits.simps [of b n])
    then show ?thesis by blast
  next
    case False
    with "1.prems" have "c \<in> set (digits b (n div b)) \<or> c = digit_char (n mod b)"
      by (auto simp: digits.simps [of b n])
    then show ?thesis
    proof
      assume "c \<in> set (digits b (n div b))"
      with "1.IH" [OF False bb] show ?thesis .
    next
      assume "c = digit_char (n mod b)"
      moreover have "n mod b < b" using bb by simp
      then have "n mod b < 16" using bb by linarith
      ultimately show ?thesis by blast
    qed
  qed
qed

lemma digits_inj:
  "2 \<le> b \<Longrightarrow> b \<le> 16 \<Longrightarrow> digits b n = digits b m \<Longrightarrow> n = m"
proof (induction b n arbitrary: m rule: digits.induct)
  case (1 b n)
  note bb = \<open>2 \<le> b\<close> \<open>b \<le> 16\<close>
  note eq = \<open>digits b n = digits b m\<close>
  show ?case
  proof (cases "n < b")
    case nb: True
    show ?thesis
    proof (cases "m < b")
      case True
      with nb eq have "digit_char n = digit_char m"
        by (simp add: digits.simps [of b n] digits.simps [of b m])
      moreover have "n < 16" "m < 16" using nb True bb by auto
      ultimately show ?thesis by (rule_tac digit_char_inj)
    next
      case False
      with nb eq bb have "digits b (m div b) = []"
        by (simp add: digits.simps [of b n] digits.simps [of b m])
      then show ?thesis by (simp add: digits_nonempty)
    qed
  next
    case nb: False
    show ?thesis
    proof (cases "m < b")
      case True
      with nb eq bb have "digits b (n div b) = []"
        by (simp add: digits.simps [of b n] digits.simps [of b m])
      then show ?thesis by (simp add: digits_nonempty)
    next
      case False
      with nb eq bb
      have e: "digits b (n div b) = digits b (m div b)"
        and d: "digit_char (n mod b) = digit_char (m mod b)"
        by (simp_all add: digits.simps [of b n] digits.simps [of b m])
      have "\<not> (b < 2 \<or> n < b)" using nb bb by simp
      from "1.IH" [OF this bb e] have q: "n div b = m div b" .
      have "n mod b < b" "m mod b < b" using bb by simp_all
      then have "n mod b < 16" "m mod b < 16" using bb by linarith+
      with d have r: "n mod b = m mod b" by (rule_tac digit_char_inj)
      from q r show ?thesis by (metis div_mult_mod_eq)
    qed
  qed
qed

lemma split_at_sep:
  "c \<notin> set a \<Longrightarrow> c \<notin> set a' \<Longrightarrow> a @ c # r = a' @ c # r' \<Longrightarrow> a = a' \<and> r = r'"
proof (induction a arbitrary: a')
  case Nil
  then show ?case by (cases a') auto
next
  case (Cons x a)
  then show ?case by (cases a') auto
qed

lemma format_d_inj: "format_d i = format_d j \<Longrightarrow> i = j"
proof -
  assume eq: "format_d i = format_d j"
  have hd_pos: "hd (digits 10 n) \<noteq> CHR ''-''" for n
  proof -
    have "hd (digits 10 n) \<in> set (digits 10 n)" by (simp add: digits_nonempty)
    then obtain d where "d < 16" "hd (digits 10 n) = digit_char d"
      using digits_chars [of 10] by auto
    then show ?thesis using digit_char_not_sep(2) by simp
  qed
  show ?thesis
  proof (cases "i < 0")
    case True
    show ?thesis
    proof (cases "j < 0")
      case j: True
      with True eq have "digits 10 (nat \<bar>i\<bar>) = digits 10 (nat \<bar>j\<bar>)"
        by (simp add: format_d_def)
      then have "nat \<bar>i\<bar> = nat \<bar>j\<bar>" by (rule digits_inj [rotated 2]) simp_all
      with True j show ?thesis by simp
    next
      case False
      with True eq have "CHR ''-'' # digits 10 (nat \<bar>i\<bar>) = digits 10 (nat \<bar>j\<bar>)"
        by (simp add: format_d_def)
      then have "hd (digits 10 (nat \<bar>j\<bar>)) = CHR ''-''" by (metis list.sel(1))
      with hd_pos show ?thesis by simp
    qed
  next
    case False
    show ?thesis
    proof (cases "j < 0")
      case True
      with False eq have "digits 10 (nat \<bar>i\<bar>) = CHR ''-'' # digits 10 (nat \<bar>j\<bar>)"
        by (simp add: format_d_def)
      then have "hd (digits 10 (nat \<bar>i\<bar>)) = CHR ''-''" by (metis list.sel(1))
      with hd_pos show ?thesis by simp
    next
      case j: False
      with False eq have "digits 10 (nat \<bar>i\<bar>) = digits 10 (nat \<bar>j\<bar>)"
        by (simp add: format_d_def)
      then have "nat \<bar>i\<bar> = nat \<bar>j\<bar>" by (rule digits_inj [rotated 2]) simp_all
      with False j show ?thesis by simp
    qed
  qed
qed

lemma format_x_inj: "format_x i = format_x j \<Longrightarrow> i = j"
proof -
  assume eq: "format_x i = format_x j"
  show ?thesis
  proof (cases "i < 0")
    case True
    show ?thesis
    proof (cases "j < 0")
      case j: True
      with True eq have "digits 16 (nat \<bar>i\<bar>) = digits 16 (nat \<bar>j\<bar>)"
        by (simp add: format_x_def)
      then have "nat \<bar>i\<bar> = nat \<bar>j\<bar>" by (rule digits_inj [rotated 2]) simp_all
      with True j show ?thesis by simp
    next
      case False
      with True eq show ?thesis by (simp add: format_x_def)
    qed
  next
    case False
    show ?thesis
    proof (cases "j < 0")
      case True
      with False eq show ?thesis by (simp add: format_x_def)
    next
      case j: False
      with False eq have "digits 16 (nat \<bar>i\<bar>) = digits 16 (nat \<bar>j\<bar>)"
        by (simp add: format_x_def)
      then have "nat \<bar>i\<bar> = nat \<bar>j\<bar>" by (rule digits_inj [rotated 2]) simp_all
      with False j show ?thesis by simp
    qed
  qed
qed

lemma digits_no_dot:
  assumes "2 \<le> b" "b \<le> 16"
  shows "CHR ''.'' \<notin> set (digits b n)"
proof
  assume "CHR ''.'' \<in> set (digits b n)"
  from digits_chars [OF assms this] obtain d where "d < 16" "CHR ''.'' = digit_char d"
    by blast
  with digit_char_not_sep(1) [of d] show False by simp
qed

lemma format_x_no_dot: "CHR ''.'' \<notin> set (format_x i)"
  using digits_no_dot [of 16] by (simp add: format_x_def)

lemma format_d_no_dot: "CHR ''.'' \<notin> set (format_d i)"
  using digits_no_dot [of 10] by (simp add: format_d_def)

subsection \<open>Effects of the sink operations\<close>

lemma digit_char_values:
  "digit_char 0 = CHR ''0''" "digit_char (Suc 0) = CHR ''1''" "digit_char 2 = CHR ''2''"
  "digit_char 3 = CHR ''3''" "digit_char 4 = CHR ''4''" "digit_char 5 = CHR ''5''"
  "digit_char 6 = CHR ''6''" "digit_char 7 = CHR ''7''" "digit_char 8 = CHR ''8''"
  "digit_char 9 = CHR ''9''" "digit_char 10 = CHR ''a''" "digit_char 11 = CHR ''b''"
  "digit_char 12 = CHR ''c''" "digit_char 13 = CHR ''d''" "digit_char 14 = CHR ''e''"
  "digit_char 15 = CHR ''f''"
  unfolding digit_char_def by code_simp+

lemma pe_file_name_example:
  "pe_file_name 0 4 0x140000000 = ''PE.0x0.4.0x140000000.dmp''"
  "pe_file_name 0xfa8001 812 (-255) = ''PE.0xfa8001.812.-0xff.dmp''"
  by (simp_all add: pe_file_name_def format_x_def format_d_def digits.simps digit_char_values)

lemma file_seek_simps:
  "vollog (file_seek h off w) = vollog w"
  "length (files (file_seek h off w)) = length (files w)"
  "i \<noteq> h \<Longrightarrow> files (file_seek h off w) ! i = files w ! i"
  "h < length (files w) \<Longrightarrow> written (files (file_seek h off w) ! h) = written (files w ! h)"
  "h < length (files w) \<Longrightarrow> close_called (files (file_seek h off w) ! h) = close_called (files w ! h)"
  "h < length (files w) \<Longrightarrow> position (files (file_seek h off w) ! h) = off"
  by (simp_all add: file_seek_def)

lemma file_write_simps:
  "vollog (file_write h d w) = vollog w"
  "length (files (file_write h d w)) = length (files w)"
  "i \<noteq> h \<Longrightarrow> files (file_write h d w) ! i = files w ! i"
  "h < length (files w) \<Longrightarrow>
     written (files (file_write h d w) ! h) = written (files w ! h) @ [(position (files w ! h), d)]"
  "h < length (files w) \<Longrightarrow> close_called (files (file_write h d w) ! h) = close_called (files w ! h)"
  by (simp_all add: file_write_def Let_def)

lemma write_loop_effect:
  assumes "h < length (files w)" "write_loop E h ins w = (r, w')"
  shows "vollog w' = vollog w \<and> length (files w') = length (files w)
       \<and> (\<forall>i. i \<noteq> h \<longrightarrow> files w' ! i = files w ! i)
       \<and> close_called (files w' ! h) = close_called (files w ! h)
       \<and> (\<exists>applied. written (files w' ! h) = written (files w ! h) @ applied
             \<and> prefix applied ins \<and> (r = None \<longrightarrow> applied = ins))"
  using assms
proof (induction ins arbitrary: w)
  case Nil
  then show ?case by auto
next
  case (Cons a ins)
  obtain off d where a: "a = (off, d)" by (cases a)
  let ?w1 = "file_seek h off w"
  let ?w2 = "file_write h d ?w1"
  have h1: "h < length (files ?w1)" using Cons.prems(1) by (simp add: file_seek_simps)
  show ?case
  proof (cases "seek_raises E w h off")
    case (Some e)
    with Cons.prems a have "r = Some e" "w' = w" by auto
    then show ?thesis by auto
  next
    case None
    show ?thesis
    proof (cases "write_raises E ?w1 h d")
      case (Some e)
      with None Cons.prems a have "r = Some e" "w' = ?w1" by auto
      then show ?thesis using Cons.prems(1) by (auto simp: file_seek_simps)
    next
      case wn: None
      with None Cons.prems a have rec: "write_loop E h ins ?w2 = (r, w')" by auto
      have h2: "h < length (files ?w2)" using h1 by (simp add: file_write_simps)
      from Cons.IH [OF h2 rec]
      obtain applied where ih: "vollog w' = vollog ?w2" "length (files w') = length (files ?w2)"
        "\<forall>i. i \<noteq> h \<longrightarrow> files w' ! i = files ?w2 ! i"
        "close_called (files w' ! h) = close_called (files ?w2 ! h)"
        "written (files w' ! h) = written (files ?w2 ! h) @ applied"
        "prefix applied ins" "r = None \<longrightarrow> applied = ins"
        by blast
      have wr: "written (files ?w2 ! h) = written (files w ! h) @ [(off, d)]"
        using Cons.prems(1) h1 by (simp add: file_write_simps file_seek_simps)
      have "written (files w' ! h) = written (files w ! h) @ ((off, d) # applied)"
        using ih(5) wr by simp
      moreover have "prefix ((off, d) # applied) (a # ins)" using ih(6) a by simp
      moreover have "r = None \<longrightarrow> (off, d) # applied = a # ins" using ih(7) a by simp
      ultimately show ?thesis
        using ih(1-4) Cons.prems(1) h1
        by (auto simp: file_write_simps file_seek_simps)
    qed
  qed
qed


lemma file_open_simps:
  "vollog (file_open E name w) = vollog w"
  "length (files (file_open E name w)) = Suc (length (files w))"
  "i < length (files w) \<Longrightarrow> files (file_open E name w) ! i = files w ! i"
  "written (files (file_open E name w) ! length (files w)) = []"
  "\<not> close_called (files (file_open E name w) ! length (files w))"
  by (simp_all add: file_open_def nth_append)

lemma try_block_open_fails:
  "open_raises E w (pe_file_name po p (base cfg)) = Some e \<Longrightarrow>
     try_block E cfg t l po p w = (Inl e, w)"
  by (simp add: try_block_def)

lemma try_block_effect:
  assumes op: "open_raises E w (pe_file_name po p (base cfg)) = None"
    and tb: "try_block E cfg t l po p w = (r, w')"
  shows "vollog w' = vollog w \<and> length (files w') = Suc (length (files w))
       \<and> (\<forall>i < length (files w). files w' ! i = files w ! i)
       \<and> \<not> close_called (files w' ! length (files w))
       \<and> prefix (written (files w' ! length (files w))) (fst (reconstruct E l (base cfg)))
       \<and> (\<forall>h. r = Inr h \<longrightarrow> h = length (files w)
             \<and> written (files w' ! length (files w)) = fst (reconstruct E l (base cfg))
             \<and> snd (reconstruct E l (base cfg)) = None)"
proof -
  let ?h = "length (files w)"
  let ?w1 = "file_open E (pe_file_name po p (base cfg)) w"
  let ?ins = "fst (reconstruct E l (base cfg))"
  show ?thesis
  proof (cases "object_raises E (t @ ''!'' @ ''_IMAGE_DOS_HEADER'') l (base cfg)")
    case (Some e)
    with op tb have "r = Inl e" "w' = ?w1" by (simp_all add: try_block_def Let_def)
    then show ?thesis by (simp add: file_open_simps)
  next
    case None
    obtain r2 w2 where wl: "write_loop E ?h ?ins ?w1 = (r2, w2)" by (cases "write_loop E ?h ?ins ?w1")
    have hl: "?h < length (files ?w1)" by (simp add: file_open_simps)
    from write_loop_effect [OF hl wl]
    obtain applied where eff: "vollog w2 = vollog ?w1" "length (files w2) = length (files ?w1)"
      "\<forall>i. i \<noteq> ?h \<longrightarrow> files w2 ! i = files ?w1 ! i"
      "close_called (files w2 ! ?h) = close_called (files ?w1 ! ?h)"
      "written (files w2 ! ?h) = written (files ?w1 ! ?h) @ applied"
      "prefix applied ?ins" "r2 = None \<longrightarrow> applied = ?ins"
      by blast
    have w2: "w' = w2"
      using op tb None wl by (simp add: try_block_def Let_def split: option.splits)
    have r: "r = (case r2 of Some e \<Rightarrow> Inl e
                  | None \<Rightarrow> (case snd (reconstruct E l (base cfg)) of Some e \<Rightarrow> Inl e | None \<Rightarrow> Inr ?h))"
      using op tb None wl by (simp add: try_block_def Let_def split: option.splits)
    have "\<forall>h. r = Inr h \<longrightarrow> h = ?h \<and> applied = ?ins \<and> snd (reconstruct E l (base cfg)) = None"
      using r eff(7) by (auto split: option.splits)
    then show ?thesis
      using eff w2 by (auto simp: file_open_simps)
  qed
qed

lemma find_session_layer_none:
  "\<forall>c\<in>set ls. \<not> valid c b \<Longrightarrow> find_session_layer valid ls b = None"
  by (induction ls) auto

lemma find_session_layer_first:
  "\<forall>c\<in>set pre. \<not> valid c b \<Longrightarrow> valid l b \<Longrightarrow> find_session_layer valid (pre @ l # post) b = Some l"
  by (induction pre) auto

lemma find_session_layer_some:
  "find_session_layer valid ls b = Some l \<Longrightarrow>
     \<exists>pre post. ls = pre @ l # post \<and> (\<forall>c\<in>set pre. \<not> valid c b) \<and> valid l b"
proof (induction ls)
  case Nil
  then show ?case by simp
next
  case (Cons a ls)
  show ?case
  proof (cases "valid a b")
    case True
    with Cons.prems have "a = l" by simp
    with True have "a # ls = [] @ l # ls \<and> (\<forall>c\<in>set []. \<not> valid c b) \<and> valid l b" by simp
    then show ?thesis by blast
  next
    case False
    with Cons obtain pre post where "ls = pre @ l # post" "\<forall>c\<in>set pre. \<not> valid c b" "valid l b"
      by auto
    with False have "a # ls = (a # pre) @ l # post \<and> (\<forall>c\<in>set (a # pre). \<not> valid c b) \<and> valid l b"
      by simp
    then show ?thesis by blast
  qed
qed

lemma dump_processes_loop_order:
  "subseq (map (\<lambda>(p, n, out). (p, n)) (fst (fst (dump_processes_loop E cfg t ps w))))
          (map (\<lambda>proc. (UniqueProcessId proc, ImageFileName proc)) ps)"
proof (induction ps arbitrary: w)
  case Nil
  then show ?case by simp
next
  case (Cons proc ps)
  obtain r w1 where wp:
    "write_pe E cfg t (process_layer proc) (vol_offset proc) (UniqueProcessId proc) w = (r, w1)"
    by (cases "write_pe E cfg t (process_layer proc) (vol_offset proc) (UniqueProcessId proc) w")
  show ?case
  proof (cases r)
    case (Inl e)
    with wp show ?thesis by simp
  next
    case (Inr file_output)
    obtain rows x w2 where rec: "dump_processes_loop E cfg t ps w1 = ((rows, x), w2)"
      by (metis prod.exhaust)
    from Cons.IH [of w1] rec
    have ih: "subseq (map (\<lambda>(p, n, out). (p, n)) rows)
                (map (\<lambda>proc. (UniqueProcessId proc, ImageFileName proc)) ps)"
      by simp
    have res: "fst (fst (dump_processes_loop E cfg t (proc # ps) w))
        = yield_row (UniqueProcessId proc) (ImageFileName proc) file_output @ rows"
      using wp Inr rec by simp
    show ?thesis
    proof (cases "yield_row (UniqueProcessId proc) (ImageFileName proc) file_output = []")
      case True
      show ?thesis unfolding res True using ih by (simp add: list_emb_Cons)
    next
      case False
      then obtain f where y: "yield_row (UniqueProcessId proc) (ImageFileName proc) file_output
          = [(UniqueProcessId proc, ImageFileName proc, f)]"
        by (auto simp: yield_row_def split: option.splits if_splits)
      show ?thesis unfolding res y using ih by simp
    qed
  qed
qed

lemma file_close_simps:
  "vollog (file_close h w) = vollog w"
  "length (files (file_close h w)) = length (files w)"
  "h < length (files w) \<Longrightarrow> written (files (file_close h w) ! h) = written (files w ! h)"
  "h < length (files w) \<Longrightarrow> close_called (files (file_close h w) ! h)"
  by (simp_all add: file_close_def)

lemma log_msg_files: "files (log_msg lvl m w) = files w"
  by (simp add: log_msg_def)

text \<open>The definitions that a run on concrete inputs unfolds.\<close>

lemmas run_defs = write_pe_def try_block_def Let_def file_open_def file_seek_def file_write_def
  file_close_def log_msg_def yield_row_def truthy_def caught_def

subsection \<open>Equal file names\<close>

lemma pe_file_name_eq:
  assumes "pe_file_name o1 p1 b1 = pe_file_name o2 p2 b2"
  shows "o1 = o2 \<and> p1 = p2 \<and> b1 = b2"
proof -
  from assms
  have e1: "format_x o1 @ CHR ''.'' # (format_d p1 @ ''.'' @ format_x b1 @ ''.dmp'')
      = format_x o2 @ CHR ''.'' # (format_d p2 @ ''.'' @ format_x b2 @ ''.dmp'')"
    by (simp add: pe_file_name_def)
  from split_at_sep [OF format_x_no_dot format_x_no_dot e1]
  have x: "format_x o1 = format_x o2"
    and e2: "format_d p1 @ CHR ''.'' # (format_x b1 @ ''.dmp'')
      = format_d p2 @ CHR ''.'' # (format_x b2 @ ''.dmp'')"
    by simp_all
  from split_at_sep [OF format_d_no_dot format_d_no_dot e2]
  have d: "format_d p1 = format_d p2" and b: "format_x b1 = format_x b2"
    by simp_all
  from x d b show ?thesis
    by (simp add: format_x_inj format_d_inj)
qed

section \<open>The claims\<close>

subsection \<open>Configuration\<close>

text \<open>
  Claim C1. Exactly one of the process-id filter and the \<open>kernel_module\<close> flag may be
  active. When both are set or neither is, the run reports the configuration error (one
  record at error level) and stops before any target work: the result has no row and no
  exception, no output file is opened, and nothing of the environment is consulted (the
  result does not depend on it).
\<close>

theorem generator_config_error:
  assumes "kernel_module cfg \<longleftrightarrow> truthy (pid cfg)"
  shows "generator E cfg w =
           (([], None),
            log_msg ERROR (if kernel_module cfg
                           then ''Only --kernel_module or --pid should be set. Not both''
                           else ''--kernel_module or --pid must be set'') w)
         \<and> files (snd (generator E cfg w)) = files w"
  using assms by (simp add: generator_def log_msg_def)

theorem generator_config_error_witness:
  "generator sample_env (kernel_config\<lparr>pid := Some [4]\<rparr>) empty_world =
     (([], None), \<lparr>vollog = [(ERROR, ''Only --kernel_module or --pid should be set. Not both'')],
                   files = []\<rparr>)
   \<and> generator sample_env (process_config\<lparr>pid := None\<rparr>) empty_world =
     (([], None), \<lparr>vollog = [(ERROR, ''--kernel_module or --pid must be set'')], files = []\<rparr>)"
  using generator_config_error [of "kernel_config\<lparr>pid := Some [4]\<rparr>" sample_env empty_world]
    generator_config_error [of "process_config\<lparr>pid := None\<rparr>" sample_env empty_world]
  by (simp add: kernel_config_def process_config_def truthy_def log_msg_def empty_world_def)

subsection \<open>Kernel-module mode\<close>

text \<open>
  Claim C3. In kernel-module mode, when no candidate session layer maps the base
  address, the run yields no target and no row, logs exactly one warning and ends
  normally.
\<close>

theorem kernel_no_session_layer:
  assumes "kernel_module cfg" and "\<not> truthy (pid cfg)"
    and "\<forall>c\<in>set (get_session_layers E). \<not> is_valid E c (base cfg)"
  shows "generator E cfg w =
           (([], None),
            log_msg WARNING
              ''Unable to find a session layer with the provided base address mapped in the kernel.'' w)"
  using assms find_session_layer_none [of "get_session_layers E" "is_valid E" "base cfg"]
  by (simp add: generator_def dump_kernel_def)

theorem kernel_no_session_layer_witness:
  "generator (sample_env\<lparr>is_valid := (\<lambda>layer_name offset. False)\<rparr>) kernel_config empty_world =
     (([], None),
      \<lparr>vollog = [(WARNING,
          ''Unable to find a session layer with the provided base address mapped in the kernel.'')],
        files = []\<rparr>)"
  using kernel_no_session_layer
    [of kernel_config "sample_env\<lparr>is_valid := (\<lambda>layer_name offset. False)\<rparr>" empty_world]
  by (simp add: kernel_config_def truthy_def log_msg_def empty_world_def sample_env_def)

text \<open>
  Claim C4. In kernel-module mode, when some enumerated session layer maps the base
  address (\<open>l\<close> is the first that does) and the dump of that target succeeds with the
  output reference \<open>out\<close>, the result is exactly the one row of identity 4 and label
  \<open>Kernel\<close> that carries \<open>out\<close>. Layer names and output references are the non-empty
  strings that the framework gives out.
\<close>

theorem kernel_single_row:
  assumes "kernel_module cfg" and "\<not> truthy (pid cfg)"
    and "get_session_layers E = pre @ l # post"
    and "\<forall>c\<in>set pre. \<not> is_valid E c (base cfg)"
    and "is_valid E l (base cfg)" and "l \<noteq> []"
    and "write_pe E cfg (pe_table_name E) l 0 4 w = (Inr (Some out), w1)" and "out \<noteq> []"
  shows "generator E cfg w = (([(0, (4, ''Kernel'', out))], None), w1)"
proof -
  have "find_session_layer (is_valid E) (get_session_layers E) (base cfg) = Some l"
    using assms(3-5) by (simp add: find_session_layer_first)
  with assms show ?thesis
    by (simp add: generator_def dump_kernel_def yield_row_def)
qed

theorem kernel_single_row_witness:
  "generator sample_env kernel_config empty_world =
     (([(0, (4, ''Kernel'', pe_file_name 0 4 0x140000000))], None),
      \<lparr>vollog = [],
        files = [\<lparr>file_name = pe_file_name 0 4 0x140000000,
                  preferred_filename = pe_file_name 0 4 0x140000000,
                  position = 1027, written = [(0, [77, 90]), (1024, [1, 2, 3])],
                  close_called = True\<rparr>]\<rparr>)"
proof -
  have n: "pe_file_name 0 4 0x140000000 \<noteq> []" by (simp add: pe_file_name_def)
  show ?thesis
    using n kernel_single_row [of kernel_config sample_env "[''session_1'', ''session_2'']"
        "''session_3''" "[]" empty_world "pe_file_name 0 4 0x140000000"
        "\<lparr>vollog = [],
          files = [\<lparr>file_name = pe_file_name 0 4 0x140000000,
                  preferred_filename = pe_file_name 0 4 0x140000000,
                  position = 1027, written = [(0, [77, 90]), (1024, [1, 2, 3])],
                  close_called = True\<rparr>]\<rparr>"]
    by (simp add: sample_env_def kernel_config_def empty_world_def run_defs)
qed

text \<open>
  Claim C5. The kernel-module target is resolved by first match: the candidates are
  searched in enumeration order, the first one that maps the base address is the layer
  the dump reads, and neither the candidates after it nor what they map has any
  influence.
\<close>

theorem kernel_first_match:
  assumes "session_layers = pre @ l # post"
    and "\<forall>c\<in>set pre. \<not> is_valid E c (base cfg)"
    and "is_valid E l (base cfg)" and "l \<noteq> []"
  shows "find_session_layer (is_valid E) session_layers (base cfg) = Some l
       \<and> (\<forall>valid' post'. (\<forall>c\<in>set (pre @ [l]). valid' c (base cfg) = is_valid E c (base cfg))
             \<longrightarrow> find_session_layer valid' (pre @ l # post') (base cfg) = Some l)
       \<and> dump_kernel E cfg t session_layers w =
           (case write_pe E cfg t l 0 4 w of
              (Inl e, w1) \<Rightarrow> (([], Some e), w1)
            | (Inr file_output, w1) \<Rightarrow> ((yield_row 4 ''Kernel'' file_output, None), w1))"
proof -
  have f: "find_session_layer (is_valid E) session_layers (base cfg) = Some l"
    using assms(1-3) by (simp add: find_session_layer_first)
  have g: "find_session_layer valid' (pre @ l # post') (base cfg) = Some l"
    if "\<forall>c\<in>set (pre @ [l]). valid' c (base cfg) = is_valid E c (base cfg)" for valid' post'
    using that assms(2,3) by (intro find_session_layer_first) simp_all
  from f g assms(4) show ?thesis by (simp add: dump_kernel_def)
qed

theorem kernel_first_match_witness:
  "find_session_layer (is_valid two_sessions_env) [''session_1'', ''session_2'', ''session_3'']
      (base kernel_config) = Some ''session_2''
   \<and> dump_kernel two_sessions_env kernel_config ''pe1'' [''session_1'', ''session_2'', ''session_3'']
        empty_world =
       (([(4, ''Kernel'', pe_file_name 0 4 0x140000000)], None),
        \<lparr>vollog = [],
          files = [\<lparr>file_name = pe_file_name 0 4 0x140000000,
                    preferred_filename = pe_file_name 0 4 0x140000000,
                    position = 2, written = [(0, [77, 90])], close_called = True\<rparr>]\<rparr>)"
proof -
  have n: "pe_file_name 0 4 0x140000000 \<noteq> []" by (simp add: pe_file_name_def)
  show ?thesis
    using n kernel_first_match [of "[''session_1'', ''session_2'', ''session_3'']" "[''session_1'']"
        "''session_2''" "[''session_3'']" two_sessions_env kernel_config "''pe1''" empty_world]
    by (simp add: two_sessions_env_def sample_env_def kernel_config_def empty_world_def run_defs)
qed

text \<open>
  Claim C9. In kernel-module mode every run gives at most one row, however many session
  layers map the base address; a row has identity 4 and label \<open>Kernel\<close> and is there
  only when the dump of the one resolved target returned its output reference.
\<close>

theorem kernel_at_most_one_row:
  assumes "kernel_module cfg"
  shows "length (fst (fst (generator E cfg w))) \<le> 1
       \<and> (\<forall>r\<in>set (fst (fst (generator E cfg w))).
            \<exists>l out. r = (0, (4, ''Kernel'', out))
              \<and> find_session_layer (is_valid E) (get_session_layers E) (base cfg) = Some l
              \<and> fst (write_pe E cfg (pe_table_name E) l 0 4 w) = Inr (Some out))"
  using assms
  by (auto simp: generator_def dump_kernel_def yield_row_def
           split: option.splits if_splits prod.splits sum.splits)

theorem kernel_at_most_one_row_witness:
  "length (fst (fst (generator two_sessions_env kernel_config empty_world))) \<le> 1
   \<and> fst (fst (generator two_sessions_env kernel_config empty_world)) =
       [(0, (4, ''Kernel'', pe_file_name 0 4 0x140000000))]"
proof -
  have n: "pe_file_name 0 4 0x140000000 \<noteq> []" by (simp add: pe_file_name_def)
  show ?thesis
    using n kernel_at_most_one_row [of kernel_config two_sessions_env empty_world]
    by (simp add: generator_def dump_kernel_def two_sessions_env_def sample_env_def
          kernel_config_def empty_world_def run_defs)
qed

subsection \<open>Order of the rows\<close>

text \<open>
  Claim C6. The rows come in the order in which the resolver yields the targets: the
  identities of the rows are a subsequence of the identities of the targets, nothing is
  reordered or sorted.
\<close>

theorem rows_in_resolver_order:
  "subseq (map (\<lambda>(depth, p, n, out). (p, n)) (fst (fst (generator E cfg w))))
          (if kernel_module cfg then [(4, ''Kernel'')]
           else map (\<lambda>proc. (UniqueProcessId proc, ImageFileName proc)) (list_processes E (pid cfg)))"
proof (cases "kernel_module cfg")
  case True
  have "fst (fst (generator E cfg w)) = [] \<or> (\<exists>out. fst (fst (generator E cfg w)) = [(0, (4, ''Kernel'', out))])"
    using True
    by (auto simp: generator_def dump_kernel_def yield_row_def
           split: option.splits if_splits prod.splits sum.splits)
  with True show ?thesis by auto
next
  case False
  have m: "(\<lambda>(depth, p, n, out). (p, n)) \<circ> Pair (0::nat) = (\<lambda>(p, n, out). (p, n))"
    by (auto simp: fun_eq_iff)
  show ?thesis
  proof (cases "truthy (pid cfg)")
    case t: True
    obtain rows x w1 where d: "dump_processes E cfg (pe_table_name E) w = ((rows, x), w1)"
      by (metis prod.exhaust)
    have "subseq (map (\<lambda>(p, n, out). (p, n)) rows)
            (map (\<lambda>proc. (UniqueProcessId proc, ImageFileName proc)) (list_processes E (pid cfg)))"
      using dump_processes_loop_order [of E cfg "pe_table_name E" "list_processes E (pid cfg)" w] d
      by (simp add: dump_processes_def)
    with False t d show ?thesis by (simp add: generator_def m)
  next
    case f: False
    with False show ?thesis by (simp add: generator_def)
  qed
qed


theorem rows_in_resolver_order_witness:
  "fst (fst (generator sample_env (process_config\<lparr>pid := Some [812, 4]\<rparr>) empty_world)) =
     [(0, (4, ''System'', pe_file_name 0xfa8000 4 0x140000000)),
      (0, (812, ''svchost.exe'', pe_file_name 0xfa9000 812 0x140000000))]
   \<and> subseq [(4, ''System''), (812, ''svchost.exe'')]
        [(4, ''System''), (812, ''svchost.exe''), (1000, ''notepad.exe'')]"
proof -
  have n: "pe_file_name a b c \<noteq> []" for a b c by (simp add: pe_file_name_def)
  have r: "fst (fst (generator sample_env (process_config\<lparr>pid := Some [812, 4]\<rparr>) empty_world)) =
     [(0, (4, ''System'', pe_file_name 0xfa8000 4 0x140000000)),
      (0, (812, ''svchost.exe'', pe_file_name 0xfa9000 812 0x140000000))]"
    using n
    by (simp add: generator_def dump_processes_def list_processes_def sample_env_def
          process_config_def empty_world_def proc_system_def proc_svchost_def proc_notepad_def
          run_defs)
  show ?thesis
    using r rows_in_resolver_order [of sample_env "process_config\<lparr>pid := Some [812, 4]\<rparr>" empty_world]
    by (simp add: list_processes_def sample_env_def process_config_def proc_system_def
          proc_svchost_def proc_notepad_def)
qed

subsection \<open>File names\<close>

text \<open>
  Claim C7. The name of the output file is a function of the process object offset, the
  process id and the base address, and two targets that differ in one of them get
  different names.
\<close>

theorem pe_file_name_no_collision:
  "pe_file_name o1 p1 b1 = pe_file_name o2 p2 b2 \<longleftrightarrow> o1 = o2 \<and> p1 = p2 \<and> b1 = b2"
  using pe_file_name_eq by blast

theorem pe_file_name_no_collision_witness:
  "pe_file_name 0xfa8000 4 0x140000000 \<noteq> pe_file_name 0xfa9000 812 0x140000000"
  using pe_file_name_no_collision [of "0xfa8000" 4 "0x140000000" "0xfa9000" 812 "0x140000000"]
  by simp

subsection \<open>Failures of one target\<close>

text \<open>
  Claim C2, as amended. For every target, of a process or of the kernel, an exception of
  one of the four classes named in the \<open>except\<close> clause that is raised inside the \<open>try\<close>
  statement (opening the output file, building the header object, reconstructing,
  seeking, writing) is caught at the target: it is logged once at debug level, the
  target gives no row, and the run goes on with the next target.
\<close>

theorem caught_failure_skips_target:
  assumes "try_block E cfg t l po p w = (Inl e, w1)" and "caught e"
  shows "write_pe E cfg t l po p w =
           (Inr None,
            log_msg DEBUG (''Unable to dump dll at offset '' @ format_d (base cfg) @ '': '' @ msg e) w1)
       \<and> (process_layer proc = l \<and> vol_offset proc = po \<and> UniqueProcessId proc = p \<longrightarrow>
            dump_processes_loop E cfg t (proc # rest) w =
              dump_processes_loop E cfg t rest
                (log_msg DEBUG (''Unable to dump dll at offset '' @ format_d (base cfg) @ '': '' @ msg e) w1))
       \<and> (find_session_layer (is_valid E) session_layers (base cfg) = Some l \<and> l \<noteq> []
              \<and> po = 0 \<and> p = 4 \<longrightarrow>
            dump_kernel E cfg t session_layers w =
              (([], None),
               log_msg DEBUG (''Unable to dump dll at offset '' @ format_d (base cfg) @ '': '' @ msg e) w1))"
proof -
  let ?w2 = "log_msg DEBUG (''Unable to dump dll at offset '' @ format_d (base cfg) @ '': '' @ msg e) w1"
  have wp: "write_pe E cfg t l po p w = (Inr None, ?w2)"
    using assms by (simp add: write_pe_def)
  have loop: "dump_processes_loop E cfg t (proc # rest) w = dump_processes_loop E cfg t rest ?w2"
    if "process_layer proc = l \<and> vol_offset proc = po \<and> UniqueProcessId proc = p"
  proof -
    obtain res w3 where "dump_processes_loop E cfg t rest ?w2 = (res, w3)"
      by (metis prod.exhaust)
    with wp that show ?thesis by (cases res) (simp add: yield_row_def)
  qed
  have kern: "dump_kernel E cfg t session_layers w = (([], None), ?w2)"
    if "find_session_layer (is_valid E) session_layers (base cfg) = Some l \<and> l \<noteq> [] \<and> po = 0 \<and> p = 4"
    using that wp by (simp add: dump_kernel_def yield_row_def)
  from wp loop kern show ?thesis by blast
qed

theorem caught_failure_skips_target_witness:
  "caught bad_magic
   \<and> generator bad_header_env process_config empty_world =
       (([(0, (812, ''svchost.exe'', pe_file_name 0xfa9000 812 0x140000000))], None),
        \<lparr>vollog = [(DEBUG, ''Unable to dump dll at offset '' @ format_d 0x140000000 @ '': ''
                      @ ''e_magic 0000 is not a valid DOS signature.'')],
          files = [\<lparr>file_name = pe_file_name 0xfa8000 4 0x140000000,
                    preferred_filename = pe_file_name 0xfa8000 4 0x140000000,
                    position = 0, written = [], close_called = False\<rparr>,
                   \<lparr>file_name = pe_file_name 0xfa9000 812 0x140000000,
                    preferred_filename = pe_file_name 0xfa9000 812 0x140000000,
                    position = 1027, written = [(0, [77, 90]), (1024, [1, 2, 3])],
                    close_called = True\<rparr>]\<rparr>)
   \<and> generator bad_header_env kernel_config empty_world =
       (([], None),
        \<lparr>vollog = [(DEBUG, ''Unable to dump dll at offset '' @ format_d 0x140000000 @ '': ''
                      @ ''e_magic 0000 is not a valid DOS signature.'')],
          files = [\<lparr>file_name = pe_file_name 0 4 0x140000000,
                    preferred_filename = pe_file_name 0 4 0x140000000,
                    position = 0, written = [], close_called = False\<rparr>]\<rparr>)"
proof -
  have n: "pe_file_name a b c \<noteq> []" for a b c by (simp add: pe_file_name_def)
  have c: "caught bad_magic" by (simp add: caught_def bad_magic_def)
  have tb: "try_block bad_header_env process_config ''pe1'' ''layer_4'' 0xfa8000 4 empty_world =
      (Inl bad_magic, \<lparr>vollog = [],
          files = [\<lparr>file_name = pe_file_name 0xfa8000 4 0x140000000,
                    preferred_filename = pe_file_name 0xfa8000 4 0x140000000,
                    position = 0, written = [], close_called = False\<rparr>]\<rparr>)"
    by (simp add: bad_header_env_def sample_env_def process_config_def empty_world_def run_defs)
  have tk: "try_block bad_header_env kernel_config ''pe1'' ''session_3'' 0 4 empty_world =
      (Inl bad_magic, \<lparr>vollog = [],
          files = [\<lparr>file_name = pe_file_name 0 4 0x140000000,
                    preferred_filename = pe_file_name 0 4 0x140000000,
                    position = 0, written = [], close_called = False\<rparr>]\<rparr>)"
    by (simp add: bad_header_env_def sample_env_def kernel_config_def empty_world_def run_defs)
  have l: "list_processes bad_header_env (pid process_config) = [proc_system, proc_svchost]"
    by (simp add: list_processes_def bad_header_env_def sample_env_def process_config_def
          proc_system_def proc_svchost_def proc_notepad_def)
  have p: "pe_table_name bad_header_env = ''pe1''"
      "get_session_layers bad_header_env = [''session_1'', ''session_2'', ''session_3'']"
    by (simp_all add: bad_header_env_def sample_env_def)
  have ps: "process_layer proc_system = ''layer_4'' \<and> vol_offset proc_system = 0xfa8000
      \<and> UniqueProcessId proc_system = 4"
    by (simp add: proc_system_def)
  have f: "find_session_layer (is_valid bad_header_env) [''session_1'', ''session_2'', ''session_3'']
      (base kernel_config) = Some ''session_3'' \<and> ''session_3'' \<noteq> [] \<and> (0::int) = 0 \<and> (4::int) = 4"
    by (simp add: bad_header_env_def sample_env_def)
  have "dump_processes_loop bad_header_env process_config ''pe1'' [proc_system, proc_svchost] empty_world =
      dump_processes_loop bad_header_env process_config ''pe1'' [proc_svchost]
        (log_msg DEBUG (''Unable to dump dll at offset '' @ format_d (base process_config) @ '': ''
            @ msg bad_magic)
          \<lparr>vollog = [],
          files = [\<lparr>file_name = pe_file_name 0xfa8000 4 0x140000000,
                    preferred_filename = pe_file_name 0xfa8000 4 0x140000000,
                    position = 0, written = [], close_called = False\<rparr>]\<rparr>)"
    using caught_failure_skips_target [OF tb c, THEN conjunct2, THEN conjunct1, of proc_system] ps
    by blast
  also have "\<dots> = (([(812, ''svchost.exe'', pe_file_name 0xfa9000 812 0x140000000)], None),
        \<lparr>vollog = [(DEBUG, ''Unable to dump dll at offset '' @ format_d 0x140000000 @ '': ''
                      @ ''e_magic 0000 is not a valid DOS signature.'')],
          files = [\<lparr>file_name = pe_file_name 0xfa8000 4 0x140000000,
                    preferred_filename = pe_file_name 0xfa8000 4 0x140000000,
                    position = 0, written = [], close_called = False\<rparr>,
                   \<lparr>file_name = pe_file_name 0xfa9000 812 0x140000000,
                    preferred_filename = pe_file_name 0xfa9000 812 0x140000000,
                    position = 1027, written = [(0, [77, 90]), (1024, [1, 2, 3])],
                    close_called = True\<rparr>]\<rparr>)"
    using n
    by (simp add: bad_header_env_def sample_env_def process_config_def bad_magic_def
          proc_svchost_def run_defs)
  finally have procs: "generator bad_header_env process_config empty_world =
       (([(0, (812, ''svchost.exe'', pe_file_name 0xfa9000 812 0x140000000))], None),
        \<lparr>vollog = [(DEBUG, ''Unable to dump dll at offset '' @ format_d 0x140000000 @ '': ''
                      @ ''e_magic 0000 is not a valid DOS signature.'')],
          files = [\<lparr>file_name = pe_file_name 0xfa8000 4 0x140000000,
                    preferred_filename = pe_file_name 0xfa8000 4 0x140000000,
                    position = 0, written = [], close_called = False\<rparr>,
                   \<lparr>file_name = pe_file_name 0xfa9000 812 0x140000000,
                    preferred_filename = pe_file_name 0xfa9000 812 0x140000000,
                    position = 1027, written = [(0, [77, 90]), (1024, [1, 2, 3])],
                    close_called = True\<rparr>]\<rparr>)"
    using l p by (simp add: generator_def dump_processes_def process_config_def truthy_def)
  have "dump_kernel bad_header_env kernel_config ''pe1'' [''session_1'', ''session_2'', ''session_3'']
      empty_world =
      (([], None),
       log_msg DEBUG (''Unable to dump dll at offset '' @ format_d (base kernel_config) @ '': ''
            @ msg bad_magic)
          \<lparr>vollog = [],
          files = [\<lparr>file_name = pe_file_name 0 4 0x140000000,
                    preferred_filename = pe_file_name 0 4 0x140000000,
                    position = 0, written = [], close_called = False\<rparr>]\<rparr>)"
    using caught_failure_skips_target [OF tk c, THEN conjunct2, THEN conjunct2,
        of "[''session_1'', ''session_2'', ''session_3'']"] f
    by blast
  then have kern: "generator bad_header_env kernel_config empty_world =
       (([], None),
        \<lparr>vollog = [(DEBUG, ''Unable to dump dll at offset '' @ format_d 0x140000000 @ '': ''
                      @ ''e_magic 0000 is not a valid DOS signature.'')],
          files = [\<lparr>file_name = pe_file_name 0 4 0x140000000,
                    preferred_filename = pe_file_name 0 4 0x140000000,
                    position = 0, written = [], close_called = False\<rparr>]\<rparr>)"
    using p by (simp add: generator_def kernel_config_def truthy_def log_msg_def bad_magic_def)
  from c procs kern show ?thesis by simp
qed

text \<open>
  Claim C2 as it is stated also covers the output failure raised when the file is
  closed. \<open>close\<close> is called after the \<open>try\<close> statement: its \<open>IOError\<close> is not caught
  and not logged, it ends the run, and the second of the two targets is never tried.
\<close>

theorem close_failure_aborts_batch:
  "caught no_space
   \<and> write_pe close_fails_env process_config ''pe1'' (process_layer proc_system)
        (vol_offset proc_system) (UniqueProcessId proc_system) empty_world =
       (Inl no_space,
        \<lparr>vollog = [],
          files = [\<lparr>file_name = pe_file_name 0xfa8000 4 0x140000000,
                    preferred_filename = pe_file_name 0xfa8000 4 0x140000000,
                    position = 1027, written = [(0, [77, 90]), (1024, [1, 2, 3])],
                    close_called = True\<rparr>]\<rparr>)
   \<and> generator close_fails_env process_config empty_world =
       (([], Some no_space),
        \<lparr>vollog = [],
          files = [\<lparr>file_name = pe_file_name 0xfa8000 4 0x140000000,
                    preferred_filename = pe_file_name 0xfa8000 4 0x140000000,
                    position = 1027, written = [(0, [77, 90]), (1024, [1, 2, 3])],
                    close_called = True\<rparr>]\<rparr>)
   \<and> list_processes close_fails_env (pid process_config) = [proc_system, proc_svchost]"
  by (simp add: generator_def dump_processes_def list_processes_def close_fails_env_def
        sample_env_def process_config_def empty_world_def no_space_def
        proc_system_def proc_svchost_def proc_notepad_def run_defs)

text \<open>
  Claim C10. The output file is opened before the header is looked at. When an exception
  that the \<open>except\<close> clause catches is raised after that, the target gives no row, yet
  the file stays as it is: it exists, holds the write instructions applied so far (a
  prefix of the sequence, possibly a proper one) and \<open>close\<close> is never called on it.
  \<open>close\<close> is called exactly when the \<open>try\<close> statement ended normally, and then every
  write instruction has been applied.
\<close>

theorem close_only_after_success:
  assumes "open_raises E w (pe_file_name po p (base cfg)) = None"
    and "write_pe E cfg t l po p w = (r, w')"
  shows "length (files w') = Suc (length (files w))
       \<and> prefix (written (files w' ! length (files w))) (fst (reconstruct E l (base cfg)))
       \<and> (close_called (files w' ! length (files w))
            \<longleftrightarrow> (\<exists>h. fst (try_block E cfg t l po p w) = Inr h))
       \<and> (close_called (files w' ! length (files w))
            \<longrightarrow> written (files w' ! length (files w)) = fst (reconstruct E l (base cfg))
              \<and> snd (reconstruct E l (base cfg)) = None)
       \<and> (\<forall>e. fst (try_block E cfg t l po p w) = Inl e \<and> caught e
            \<longrightarrow> r = Inr None \<and> \<not> close_called (files w' ! length (files w)))"
proof -
  let ?h = "length (files w)"
  obtain rt w1 where tb: "try_block E cfg t l po p w = (rt, w1)"
    by (cases "try_block E cfg t l po p w")
  note eff = try_block_effect [OF assms(1) tb]
  show ?thesis
  proof (cases rt)
    case (Inl e)
    have fw: "files w' = files w1"
      using assms(2) tb Inl by (auto simp: write_pe_def log_msg_files split: if_splits)
    have rr: "caught e \<longrightarrow> r = Inr None"
      using assms(2) tb Inl by (auto simp: write_pe_def)
    from eff fw rr tb Inl show ?thesis by simp
  next
    case (Inr h)
    with eff have h: "h = ?h" by simp
    have w': "w' = file_close ?h w1"
      using assms(2) tb Inr h by (auto simp: write_pe_def split: option.splits)
    have lt: "?h < length (files w1)" using eff by simp
    from eff tb Inr h show ?thesis
      unfolding w' by (simp add: file_close_simps lt)
  qed
qed

theorem close_only_after_success_witness:
  "write_pe write_fails_env process_config ''pe1'' ''layer_4'' 0xfa8000 4 empty_world =
     (Inr None,
      \<lparr>vollog = [(DEBUG, ''Unable to dump dll at offset '' @ format_d 0x140000000 @ '': ''
                    @ ''No space left on device'')],
        files = [\<lparr>file_name = pe_file_name 0xfa8000 4 0x140000000,
                  preferred_filename = pe_file_name 0xfa8000 4 0x140000000,
                  position = 1024, written = [(0, [77, 90])], close_called = False\<rparr>]\<rparr>)
   \<and> prefix [(0, [77, 90])] [(0, [77, 90]), (1024, [1, 2, 3 :: byte])]
   \<and> fst (try_block write_fails_env process_config ''pe1'' ''layer_4'' 0xfa8000 4 empty_world)
       = Inl no_space"
proof -
  have o: "open_raises write_fails_env empty_world
      (pe_file_name 0xfa8000 4 (base process_config)) = None"
    by (simp add: write_fails_env_def sample_env_def)
  have tb: "try_block write_fails_env process_config ''pe1'' ''layer_4'' 0xfa8000 4 empty_world =
     (Inl no_space,
      \<lparr>vollog = [],
        files = [\<lparr>file_name = pe_file_name 0xfa8000 4 0x140000000,
                  preferred_filename = pe_file_name 0xfa8000 4 0x140000000,
                  position = 1024, written = [(0, [77, 90])], close_called = False\<rparr>]\<rparr>)"
    by (simp add: write_fails_env_def sample_env_def process_config_def empty_world_def run_defs)
  have wp: "write_pe write_fails_env process_config ''pe1'' ''layer_4'' 0xfa8000 4 empty_world =
     (Inr None,
      \<lparr>vollog = [(DEBUG, ''Unable to dump dll at offset '' @ format_d 0x140000000 @ '': ''
                    @ ''No space left on device'')],
        files = [\<lparr>file_name = pe_file_name 0xfa8000 4 0x140000000,
                  preferred_filename = pe_file_name 0xfa8000 4 0x140000000,
                  position = 1024, written = [(0, [77, 90])], close_called = False\<rparr>]\<rparr>)"
    using tb by (simp add: write_pe_def caught_def no_space_def log_msg_def process_config_def)
  from close_only_after_success [OF o wp] tb show ?thesis
    using wp by (simp add: empty_world_def write_fails_env_def sample_env_def process_config_def)
qed

end
